theory Spec2Isabelle
  imports Main
begin

section \<open>The host: external commands and their outcomes\<close>

text \<open>
  The builder of \<^verbatim>\<open>ansible_bender/builders/buildah_builder.py\<close> never touches an image
  itself: every operation is a call of the \<^verbatim>\<open>buildah\<close> or \<^verbatim>\<open>podman\<close> executable.
  A command is its argument vector. The state of the model is the list of commands run
  so far, oldest first. What a command does is decided by the host, which may take
  into account everything that ran before: this covers every behaviour of the external
  engine, since each call of one execution has its own history.
  Calls of the logger do not influence the control flow or the commands and are not
  part of the model.
\<close>

type_synonym command = "string list"

type_synonym trace = "command list"

datatype proc_result = Exit_ok string | Exit_fail int string

record host =
  resolvable :: "string \<Rightarrow> bool"
  outcome :: "trace \<Rightarrow> command \<Rightarrow> proc_result"

text \<open>
  The exceptions of the program. \<open>CalledProcessError\<close> is the one of Python's
  \<^verbatim>\<open>subprocess\<close>, which the source catches by name; it carries the command, the exit
  code and the captured error output. \<open>DependencyMissing\<close> carries the name of the
  binary.
\<close>

datatype error =
    CalledProcessError command int string
  | JSONDecodeError
  | TypeError
  | RuntimeError string
  | DependencyMissing string

section \<open>Python values\<close>

text \<open>
  The result of \<^verbatim>\<open>json.loads\<close> is a Python value; JSON \<^verbatim>\<open>null\<close> is Python's
  \<^verbatim>\<open>None\<close>, the same value that stands for an absent result. A dictionary is the
  list of its items in iteration order. A finite float \<open>Finite m e\<close> is \<open>m * 2 ^ e\<close>.
\<close>

datatype pyfloat = Finite int int | PosInf | NegInf | NaN

datatype pyval =
    PNone
  | PBool bool
  | PInt int
  | PFloat pyfloat
  | PStr string
  | PList "pyval list"
  | PDict "(string \<times> pyval) list"

text \<open>Python's \<^verbatim>\<open>bool(v)\<close>.\<close>

fun truthy :: "pyval \<Rightarrow> bool" where
  "truthy PNone = False"
| "truthy (PBool b) = b"
| "truthy (PInt i) = (i \<noteq> 0)"
| "truthy (PFloat x) = (case x of Finite m e \<Rightarrow> m \<noteq> 0 | PosInf \<Rightarrow> True | NegInf \<Rightarrow> True | NaN \<Rightarrow> True)"
| "truthy (PStr s) = (s \<noteq> [])"
| "truthy (PList xs) = (xs \<noteq> [])"
| "truthy (PDict kvs) = (kvs \<noteq> [])"

text \<open>
  An optional argument that is a string, a list or a dictionary is an option of a list;
  \<^verbatim>\<open>if x:\<close> holds when it is neither \<^verbatim>\<open>None\<close> nor empty.
\<close>

definition py_truthy :: "'a list option \<Rightarrow> bool" where
  "py_truthy x = (case x of None \<Rightarrow> False | Some xs \<Rightarrow> xs \<noteq> [])"

section \<open>The process invoker\<close>

text \<open>
  Modelled from the spec: \<^verbatim>\<open>run_cmd\<close> of \<^verbatim>\<open>ansible_bender.utils\<close>, which is not among
  the sources. It executes the command as an external process. With \<open>return_output\<close> it
  returns the captured standard output on success; otherwise the output is streamed and
  nothing is returned. On a non-zero exit it fails with the command, the exit code and
  the captured error output. The flags \<^verbatim>\<open>print_output\<close> and \<^verbatim>\<open>log_stderr\<close>
  only choose where the output of the process goes.
\<close>

definition run_cmd :: "host \<Rightarrow> command \<Rightarrow> bool \<Rightarrow> trace \<Rightarrow> (error + string option) \<times> trace" where
  "run_cmd h c return_output tr =
     (case outcome h tr c of
        Exit_ok out \<Rightarrow> (Inr (if return_output then Some out else None), tr @ [c])
      | Exit_fail rc err \<Rightarrow> (Inl (CalledProcessError c rc err), tr @ [c]))"

text \<open>
  \<^verbatim>\<open>buildah(command, args_and_opts, print_output, debug)\<close>: the use of \<open>debug\<close> is
  commented out in the source, so the flag changes nothing.
\<close>

definition buildah :: "host \<Rightarrow> string \<Rightarrow> string list \<Rightarrow> bool \<Rightarrow> trace \<Rightarrow> (error + string option) \<times> trace" where
  "buildah h command args_and_opts dbg tr =
     run_cmd h ([''buildah''] @ [command] @ args_and_opts) False tr"

definition podman_run_cmd :: "host \<Rightarrow> string \<Rightarrow> string list \<Rightarrow> trace \<Rightarrow> (error + string option) \<times> trace" where
  "podman_run_cmd h container_image c tr =
     run_cmd h ([''podman'', ''run'', ''--rm'', container_image] @ c) False tr"

definition pull_buildah_image :: "host \<Rightarrow> string \<Rightarrow> trace \<Rightarrow> (error + unit) \<times> trace" where
  "pull_buildah_image h container_image tr =
     (case run_cmd h [''podman'', ''pull'', container_image] False tr of
        (Inl e, tr') \<Rightarrow> (Inl e, tr')
      | (Inr _, tr') \<Rightarrow> (Inr (), tr'))"

section \<open>Creating and configuring the working container\<close>

definition create_buildah_container ::
  "host \<Rightarrow> string \<Rightarrow> string \<Rightarrow> string list option \<Rightarrow> bool \<Rightarrow> trace \<Rightarrow> (error + unit) \<times> trace" where
  "create_buildah_container h container_image container_name build_volumes dbg tr =
     (let args = [];
          args = (case build_volumes of
                    None \<Rightarrow> args
                  | Some vs \<Rightarrow> if vs \<noteq> [] then args @ [''-v''] @ vs else args);
          args = args @ [''--name'', container_name, container_image]
      in case buildah h ''from'' args dbg tr of
           (Inl e, tr') \<Rightarrow> (Inl e, tr')
         | (Inr _, tr') \<Rightarrow> (Inr (), tr'))"

text \<open>
  \<^verbatim>\<open>configure_buildah_container\<close>. The arguments are, in the order of the source's
  signature: the container name, the working directory, the environment variables, the
  labels, the user, the default command, the ports, the volumes and the debug flag.
  Each \<^verbatim>\<open>for\<close> loop that extends \<^verbatim>\<open>config_args\<close> is a left fold.
\<close>

definition configure_buildah_container ::
  "host \<Rightarrow> string \<Rightarrow> string option \<Rightarrow> (string \<times> string) list option \<Rightarrow>
   (string \<times> string) list option \<Rightarrow> string option \<Rightarrow> string option \<Rightarrow>
   string list option \<Rightarrow> string list option \<Rightarrow> bool \<Rightarrow> trace \<Rightarrow> (error + string) \<times> trace" where
  "configure_buildah_container h container_name wd env lbls usr dcmd prts vols dbg tr =
     (let config_args = [];
          config_args = (case wd of
                           None \<Rightarrow> config_args
                         | Some w \<Rightarrow> if w \<noteq> [] then config_args @ [''--workingdir'', w] else config_args);
          config_args = (case env of
                           None \<Rightarrow> config_args
                         | Some kvs \<Rightarrow>
                             if kvs \<noteq> []
                             then foldl (\<lambda>acc (k, v). acc @ [''-e'', k @ ''='' @ v]) config_args kvs
                             else config_args);
          config_args = (case lbls of
                           None \<Rightarrow> config_args
                         | Some kvs \<Rightarrow>
                             if kvs \<noteq> []
                             then foldl (\<lambda>acc (k, v). acc @ [''-l'', k @ ''='' @ v]) config_args kvs
                             else config_args);
          config_args = (case usr of
                           None \<Rightarrow> config_args
                         | Some u \<Rightarrow> if u \<noteq> [] then config_args @ [''--user'', u] else config_args);
          config_args = (case dcmd of
                           None \<Rightarrow> config_args
                         | Some c \<Rightarrow> if c \<noteq> [] then config_args @ [''--cmd'', c] else config_args);
          config_args = (case prts of
                           None \<Rightarrow> config_args
                         | Some ps \<Rightarrow>
                             if ps \<noteq> []
                             then foldl (\<lambda>acc p. acc @ [''-p'', p]) config_args ps
                             else config_args);
          config_args = (case vols of
                           None \<Rightarrow> config_args
                         | Some vs \<Rightarrow>
                             if vs \<noteq> []
                             then foldl (\<lambda>acc v. acc @ [''-v'', v]) config_args vs
                             else config_args)
      in if config_args \<noteq> []
         then (case buildah h ''config'' (config_args @ [container_name]) dbg tr of
                 (Inl e, tr') \<Rightarrow> (Inl e, tr')
               | (Inr _, tr') \<Rightarrow> (Inr container_name, tr'))
         else (Inr container_name, tr))"

section \<open>Inspecting a resource\<close>

text \<open>
  Modelled from the spec: \<^verbatim>\<open>graceful_get\<close> of \<^verbatim>\<open>ansible_bender.utils\<close>, which is not
  among the sources. It is the safe field access of the resource inspector: the value
  stored under the key when the metadata is a dictionary that has the key, and an absent
  result otherwise; it never raises.
\<close>

definition graceful_get :: "pyval \<Rightarrow> string \<Rightarrow> pyval" where
  "graceful_get d k =
     (case d of
        PDict kvs \<Rightarrow> (case map_of kvs k of None \<Rightarrow> PNone | Some v \<Rightarrow> v)
      | _ \<Rightarrow> PNone)"

text \<open>
  \<^verbatim>\<open>inspect_buildah_resource\<close>. The decoder \<open>loads\<close> stands for \<^verbatim>\<open>json.loads\<close> of
  Python's standard library and is a parameter: the theorems hold for every decoder.
  Only \<open>CalledProcessError\<close> is caught. Since \<^verbatim>\<open>run_cmd\<close> is called with
  \<^verbatim>\<open>return_output=True\<close> it returns a string; decoding no string at all would be a
  \<open>TypeError\<close>.
\<close>

definition inspect_buildah_resource ::
  "host \<Rightarrow> (string \<Rightarrow> error + pyval) \<Rightarrow> string \<Rightarrow> string \<Rightarrow> trace \<Rightarrow> (error + pyval) \<times> trace" where
  "inspect_buildah_resource h loads resource_type resource_id tr =
     (case run_cmd h [''buildah'', ''inspect'', ''-t'', resource_type, resource_id] True tr of
        (Inl (CalledProcessError c rc err), tr') \<Rightarrow> (Inr PNone, tr')
      | (Inl e, tr') \<Rightarrow> (Inl e, tr')
      | (Inr None, tr') \<Rightarrow> (Inl TypeError, tr')
      | (Inr (Some i), tr') \<Rightarrow>
          (case loads i of
             Inl e \<Rightarrow> (Inl e, tr')
           | Inr md \<Rightarrow> (Inr md, tr')))"

definition get_buildah_image_id ::
  "host \<Rightarrow> (string \<Rightarrow> error + pyval) \<Rightarrow> string \<Rightarrow> trace \<Rightarrow> (error + pyval) \<times> trace" where
  "get_buildah_image_id h loads container_image tr =
     (case inspect_buildah_resource h loads ''image'' container_image tr of
        (Inl e, tr') \<Rightarrow> (Inl e, tr')
      | (Inr md, tr') \<Rightarrow> (Inr (graceful_get md ''FromImageID''), tr'))"

section \<open>The availability checker\<close>

text \<open>
  Modelled from the spec: \<^verbatim>\<open>buildah_command_exists\<close> of \<^verbatim>\<open>ansible_bender.utils\<close>,
  which is not among the sources. It verifies that the build engine's binary is
  resolvable on the host and otherwise fails with \<open>DependencyMissing\<close> naming the
  binary. It runs no command.
\<close>

definition buildah_command_exists :: "host \<Rightarrow> trace \<Rightarrow> (error + unit) \<times> trace" where
  "buildah_command_exists h tr =
     (if resolvable h ''buildah'' then (Inr (), tr) else (Inl (DependencyMissing ''buildah''), tr))"

text \<open>
  Modelled from the spec: \<^verbatim>\<open>podman_command_exists\<close> of \<^verbatim>\<open>ansible_bender.utils\<close>,
  which is not among the sources: the same check for the run engine's binary.
\<close>

definition podman_command_exists :: "host \<Rightarrow> trace \<Rightarrow> (error + unit) \<times> trace" where
  "podman_command_exists h tr =
     (if resolvable h ''podman'' then (Inr (), tr) else (Inl (DependencyMissing ''podman''), tr))"

section \<open>The build specification and the builder\<close>

text \<open>
  The attributes of \<^verbatim>\<open>build.metadata\<close> and of \<^verbatim>\<open>build\<close> that the builder reads. The
  classes themselves are not among the sources; an attribute may be \<^verbatim>\<open>None\<close>.
\<close>

record ImageMetadata =
  working_dir :: "string option"
  env_vars :: "(string \<times> string) list option"
  labels :: "(string \<times> string) list option"
  ports :: "string list option"
  volumes :: "string list option"
  user :: "string option"
  cmd :: "string option"

record Build =
  base_image :: string
  base_layer :: string
  target_image :: string
  metadata :: ImageMetadata

text \<open>
  The object \<^verbatim>\<open>self\<close> of \<^verbatim>\<open>BuildahBuilder\<close>. The attributes \<open>build\<close>, \<open>debug\<close> and
  \<open>python_interpr_prio\<close> belong to the base class \<^verbatim>\<open>Builder\<close>.
\<close>

record BuildahBuilder =
  build :: Build
  debug :: bool
  python_interpr_prio :: "string list"
  target_image :: string
  ansible_host :: string

text \<open>
  Modelled from the spec: the constructor of the base class \<^verbatim>\<open>Builder\<close>, which is
  not among the sources. It stores the build specification and the debug flag; the
  prioritized sequence of candidate interpreter paths is given to it.
  The two attributes of the subclass do not exist yet and are empty here.
\<close>

definition Builder_init :: "string list \<Rightarrow> Build \<Rightarrow> bool \<Rightarrow> BuildahBuilder" where
  "Builder_init prio b dbg =
     \<lparr>build = b, debug = dbg, python_interpr_prio = prio, target_image = [], ansible_host = []\<rparr>"

text \<open>\<^verbatim>\<open>BuildahBuilder.__init__\<close>: the check of the binary comes last.\<close>

definition BuildahBuilder_init ::
  "host \<Rightarrow> string list \<Rightarrow> Build \<Rightarrow> bool \<Rightarrow> trace \<Rightarrow> (error + BuildahBuilder) \<times> trace" where
  "BuildahBuilder_init h prio b dbg tr =
     (let self = Builder_init prio b dbg;
          self = self\<lparr>target_image := Build.target_image b\<rparr>;
          self = self\<lparr>ansible_host := BuildahBuilder.target_image self @ ''-cont''\<rparr>
      in case buildah_command_exists h tr of
           (Inl e, tr') \<Rightarrow> (Inl e, tr')
         | (Inr _, tr') \<Rightarrow> (Inr self, tr'))"

definition create :: "host \<Rightarrow> BuildahBuilder \<Rightarrow> string list option \<Rightarrow> trace \<Rightarrow> (error + unit) \<times> trace" where
  "create h self build_volumes tr =
     (case create_buildah_container h (base_layer (build self)) (ansible_host self)
             build_volumes (debug self) tr of
        (Inl e, tr') \<Rightarrow> (Inl e, tr')
      | (Inr _, tr') \<Rightarrow>
          (case configure_buildah_container h (ansible_host self)
                  (working_dir (metadata (build self)))
                  (env_vars (metadata (build self)))
                  (labels (metadata (build self)))
                  None None
                  (ports (metadata (build self)))
                  None (debug self) tr' of
             (Inl e, tr'') \<Rightarrow> (Inl e, tr'')
           | (Inr _, tr'') \<Rightarrow> (Inr (), tr'')))"

definition clean :: "host \<Rightarrow> BuildahBuilder \<Rightarrow> trace \<Rightarrow> (error + unit) \<times> trace" where
  "clean h self tr =
     (case buildah h ''rm'' [ansible_host self] (debug self) tr of
        (Inl e, tr') \<Rightarrow> (Inl e, tr')
      | (Inr _, tr') \<Rightarrow> (Inr (), tr'))"

definition swap_working_container :: "host \<Rightarrow> BuildahBuilder \<Rightarrow> trace \<Rightarrow> (error + unit) \<times> trace" where
  "swap_working_container h self tr =
     (case clean h self tr of
        (Inl e, tr') \<Rightarrow> (Inl e, tr')
      | (Inr _, tr') \<Rightarrow> create h self None tr')"

definition get_image_id ::
  "host \<Rightarrow> (string \<Rightarrow> error + pyval) \<Rightarrow> BuildahBuilder \<Rightarrow> string \<Rightarrow> trace \<Rightarrow> (error + pyval) \<times> trace" where
  "get_image_id h loads self image_name tr = get_buildah_image_id h loads image_name tr"

text \<open>
  \<^verbatim>\<open>BuildahBuilder.commit\<close>: the second configuration call passes no debug flag, so
  the default \<^verbatim>\<open>False\<close> is used.
\<close>

definition commit ::
  "host \<Rightarrow> (string \<Rightarrow> error + pyval) \<Rightarrow> BuildahBuilder \<Rightarrow> string \<Rightarrow> trace \<Rightarrow> (error + pyval) \<times> trace" where
  "commit h loads self image_name tr =
     (case (if py_truthy (user (metadata (build self))) \<or> py_truthy (cmd (metadata (build self)))
               \<or> py_truthy (volumes (metadata (build self)))
            then configure_buildah_container h (ansible_host self) None None None
                   (user (metadata (build self)))
                   (cmd (metadata (build self)))
                   None
                   (volumes (metadata (build self))) False tr
            else (Inr (ansible_host self), tr)) of
        (Inl e, tr') \<Rightarrow> (Inl e, tr')
      | (Inr _, tr') \<Rightarrow>
          (case buildah h ''commit'' [ansible_host self, image_name] (debug self) tr' of
             (Inl e, tr'') \<Rightarrow> (Inl e, tr'')
           | (Inr _, tr'') \<Rightarrow> get_image_id h loads self image_name tr''))"

definition is_image_present ::
  "host \<Rightarrow> (string \<Rightarrow> error + pyval) \<Rightarrow> BuildahBuilder \<Rightarrow> string \<Rightarrow> trace \<Rightarrow> (error + bool) \<times> trace" where
  "is_image_present h loads self image_reference tr =
     (case get_image_id h loads self image_reference tr of
        (Inl e, tr') \<Rightarrow> (Inl e, tr')
      | (Inr v, tr') \<Rightarrow> (Inr (truthy v), tr'))"

definition pull :: "host \<Rightarrow> BuildahBuilder \<Rightarrow> trace \<Rightarrow> (error + unit) \<times> trace" where
  "pull h self tr =
     (case podman_command_exists h tr of
        (Inl e, tr') \<Rightarrow> (Inl e, tr')
      | (Inr _, tr') \<Rightarrow> pull_buildah_image h (base_image (build self)) tr')"

text \<open>
  The loop of \<^verbatim>\<open>find_python_interpreter\<close> over the remaining candidates: a probe that
  fails with \<open>CalledProcessError\<close> moves on to the next candidate, a probe that succeeds
  returns its path, and the end of the candidates raises \<^verbatim>\<open>RuntimeError\<close>.
\<close>

fun find_python_interpreter_loop :: "host \<Rightarrow> string \<Rightarrow> string list \<Rightarrow> trace \<Rightarrow> (error + string) \<times> trace" where
  "find_python_interpreter_loop h img [] tr =
     (Inl (RuntimeError (''no python interpreter found in image '' @ img)), tr)"
| "find_python_interpreter_loop h img (i # rest) tr =
     (case podman_run_cmd h img [''ls'', i] tr of
        (Inl (CalledProcessError c rc err), tr') \<Rightarrow> find_python_interpreter_loop h img rest tr'
      | (Inl e, tr') \<Rightarrow> (Inl e, tr')
      | (Inr _, tr') \<Rightarrow> (Inr i, tr'))"

definition find_python_interpreter :: "host \<Rightarrow> BuildahBuilder \<Rightarrow> trace \<Rightarrow> (error + string) \<times> trace" where
  "find_python_interpreter h self tr =
     find_python_interpreter_loop h (base_image (build self)) (python_interpr_prio self) tr"

section \<open>The commands of the external interfaces\<close>

text \<open>
  The command lines of the two engines as the specification lists them: \<^verbatim>\<open>from\<close> with
  the bind mounts and the name, \<^verbatim>\<open>config\<close> with its flags, \<^verbatim>\<open>commit\<close>, \<^verbatim>\<open>rm\<close>,
  \<^verbatim>\<open>inspect -t\<close>, and \<^verbatim>\<open>pull\<close> and \<^verbatim>\<open>run --rm\<close> of the run engine.
\<close>

definition from_command :: "string \<Rightarrow> string \<Rightarrow> string list option \<Rightarrow> command" where
  "from_command base container_name build_volumes =
     [''buildah'', ''from'']
       @ (case build_volumes of None \<Rightarrow> [] | Some vs \<Rightarrow> if vs = [] then [] else ''-v'' # vs)
       @ [''--name'', container_name, base]"

definition config_command :: "string \<Rightarrow> string list \<Rightarrow> command" where
  "config_command container_name flags = [''buildah'', ''config''] @ flags @ [container_name]"

definition commit_command :: "string \<Rightarrow> string \<Rightarrow> command" where
  "commit_command container_name image_name = [''buildah'', ''commit'', container_name, image_name]"

definition rm_command :: "string \<Rightarrow> command" where
  "rm_command container_name = [''buildah'', ''rm'', container_name]"

definition inspect_command :: "string \<Rightarrow> string \<Rightarrow> command" where
  "inspect_command resource_type resource_id = [''buildah'', ''inspect'', ''-t'', resource_type, resource_id]"

definition pull_command :: "string \<Rightarrow> command" where
  "pull_command img = [''podman'', ''pull'', img]"

definition probe_command :: "string \<Rightarrow> string \<Rightarrow> command" where
  "probe_command img path = [''podman'', ''run'', ''--rm'', img, ''ls'', path]"

text \<open>The flags of \<^verbatim>\<open>config\<close>, one group for each metadata field.\<close>

definition workingdir_flags :: "string option \<Rightarrow> string list" where
  "workingdir_flags wd =
     (case wd of None \<Rightarrow> [] | Some w \<Rightarrow> if w \<noteq> [] then [''--workingdir'', w] else [])"

definition env_flags :: "(string \<times> string) list option \<Rightarrow> string list" where
  "env_flags env =
     (case env of None \<Rightarrow> [] | Some kvs \<Rightarrow> concat (map (\<lambda>(k, v). [''-e'', k @ ''='' @ v]) kvs))"

definition label_flags :: "(string \<times> string) list option \<Rightarrow> string list" where
  "label_flags lbls =
     (case lbls of None \<Rightarrow> [] | Some kvs \<Rightarrow> concat (map (\<lambda>(k, v). [''-l'', k @ ''='' @ v]) kvs))"

definition user_flags :: "string option \<Rightarrow> string list" where
  "user_flags usr =
     (case usr of None \<Rightarrow> [] | Some u \<Rightarrow> if u \<noteq> [] then [''--user'', u] else [])"

definition cmd_flags :: "string option \<Rightarrow> string list" where
  "cmd_flags dcmd =
     (case dcmd of None \<Rightarrow> [] | Some c \<Rightarrow> if c \<noteq> [] then [''--cmd'', c] else [])"

definition port_flags :: "string list option \<Rightarrow> string list" where
  "port_flags prts =
     (case prts of None \<Rightarrow> [] | Some ps \<Rightarrow> concat (map (\<lambda>p. [''-p'', p]) ps))"

definition volume_flags :: "string list option \<Rightarrow> string list" where
  "volume_flags vols =
     (case vols of None \<Rightarrow> [] | Some vs \<Rightarrow> concat (map (\<lambda>v. [''-v'', v]) vs))"

definition config_flags ::
  "string option \<Rightarrow> (string \<times> string) list option \<Rightarrow> (string \<times> string) list option \<Rightarrow>
   string option \<Rightarrow> string option \<Rightarrow> string list option \<Rightarrow> string list option \<Rightarrow> string list" where
  "config_flags wd env lbls usr dcmd prts vols =
     workingdir_flags wd @ env_flags env @ label_flags lbls @ user_flags usr @ cmd_flags dcmd
       @ port_flags prts @ volume_flags vols"

text \<open>
  The two phases of the metadata: the pre-commit metadata (working directory,
  environment variables, labels, exposed ports) and the post-provisioning metadata
  (user, default command, volumes).
\<close>

definition pre_commit_flags :: "ImageMetadata \<Rightarrow> string list" where
  "pre_commit_flags md =
     workingdir_flags (working_dir md) @ env_flags (env_vars md) @ label_flags (labels md)
       @ port_flags (ports md)"

definition post_provisioning_flags :: "ImageMetadata \<Rightarrow> string list" where
  "post_provisioning_flags md =
     user_flags (user md) @ cmd_flags (cmd md) @ volume_flags (volumes md)"

definition post_provisioning_specified :: "ImageMetadata \<Rightarrow> bool" where
  "post_provisioning_specified md =
     (py_truthy (user md) \<or> py_truthy (cmd md) \<or> py_truthy (volumes md))"

text \<open>
  Running a sequence of commands in order: each one is run only when all the earlier
  ones succeeded, and the first failure is the result, unchanged.
\<close>

fun run_plan :: "host \<Rightarrow> command list \<Rightarrow> trace \<Rightarrow> (error + unit) \<times> trace" where
  "run_plan h [] tr = (Inr (), tr)"
| "run_plan h (c # cs) tr =
     (case outcome h tr c of
        Exit_fail rc err \<Rightarrow> (Inl (CalledProcessError c rc err), tr @ [c])
      | Exit_ok out \<Rightarrow> run_plan h cs (tr @ [c]))"

text \<open>
  The probe of the candidate at position \<open>j\<close> fails: the candidates before it have
  been probed, in order, since the trace \<open>tr\<close>.
\<close>

definition probe_fails :: "host \<Rightarrow> string \<Rightarrow> string list \<Rightarrow> trace \<Rightarrow> nat \<Rightarrow> bool" where
  "probe_fails h img prio tr j =
     (case outcome h (tr @ map (probe_command img) (take j prio)) (probe_command img (prio ! j)) of
        Exit_fail rc err \<Rightarrow> True
      | Exit_ok out \<Rightarrow> False)"

text \<open>The metadata has no value under the key: it is no dictionary, or one without the key.\<close>

definition lacks_field :: "pyval \<Rightarrow> string \<Rightarrow> bool" where
  "lacks_field d k = (case d of PDict kvs \<Rightarrow> map_of kvs k = None | _ \<Rightarrow> True)"

section \<open>Sample hosts and builds\<close>

text \<open>Two metadata documents: one with an image identifier and one whose identifier is empty.\<close>

definition doc_with_id :: string where
  \<open>doc_with_id = ''{"FromImageID": "8a3c"}''\<close>

definition doc_empty_id :: string where
  \<open>doc_empty_id = ''{"FromImageID": ""}''\<close>

text \<open>
  A decoder for the concrete instances below: it agrees with \<^verbatim>\<open>json.loads\<close> on the
  four documents it knows and on the text \<^verbatim>\<open>not json\<close>, which it rejects like every other
  text. It is used on these five texts only.
\<close>

definition sample_loads :: "string \<Rightarrow> error + pyval" where
  "sample_loads s =
     (if s = ''null'' then Inr PNone
      else if s = ''{}'' then Inr (PDict [])
      else if s = doc_with_id then Inr (PDict [(''FromImageID'', PStr ''8a3c'')])
      else if s = doc_empty_id then Inr (PDict [(''FromImageID'', PStr [])])
      else Inl JSONDecodeError)"

text \<open>A host with both engines on which every command succeeds; \<^verbatim>\<open>inspect\<close> prints \<open>doc\<close>.\<close>

definition host_printing :: "string \<Rightarrow> host" where
  "host_printing doc =
     \<lparr>resolvable = (\<lambda>b. True),
      outcome = (\<lambda>tr c. if take 2 c = [''buildah'', ''inspect''] then Exit_ok doc else Exit_ok [])\<rparr>"

text \<open>A host with both engines on which every command fails with exit code 125.\<close>

definition host_failing :: host where
  "host_failing = \<lparr>resolvable = (\<lambda>b. True), outcome = (\<lambda>tr c. Exit_fail 125 ''no such object'')\<rparr>"

text \<open>
  A host on which only the build engine is installed: its commands succeed, and a
  command of the run engine cannot be started.
\<close>

definition host_without_podman :: host where
  "host_without_podman =
     \<lparr>resolvable = (\<lambda>b. b = ''buildah''),
      outcome = (\<lambda>tr c. if take 1 c = [''buildah''] then Exit_ok []
                         else Exit_fail 127 ''command not found'')\<rparr>"

text \<open>A host on which only the run engine is installed.\<close>

definition host_without_buildah :: host where
  "host_without_buildah =
     \<lparr>resolvable = (\<lambda>b. b = ''podman''),
      outcome = (\<lambda>tr c. if take 1 c = [''podman''] then Exit_ok []
                         else Exit_fail 127 ''command not found'')\<rparr>"

text \<open>A host whose base image holds \<^verbatim>\<open>/usr/bin/python\<close> and no other interpreter.\<close>

definition host_only_python :: host where
  "host_only_python =
     \<lparr>resolvable = (\<lambda>b. True),
      outcome = (\<lambda>tr c. if c = [''podman'', ''run'', ''--rm'', ''fedora:39'', ''ls'', ''/usr/bin/python'']
                         then Exit_ok ''/usr/bin/python'' else Exit_fail 2 ''No such file or directory'')\<rparr>"

definition sample_prio :: "string list" where
  "sample_prio = [''/usr/bin/python3'', ''/usr/bin/python2'', ''/usr/bin/python'']"

definition sample_metadata :: ImageMetadata where
  "sample_metadata =
     \<lparr>working_dir = Some ''/src'', env_vars = Some [(''LANG'', ''C'')],
      labels = Some [(''maintainer'', ''me'')], ports = Some [''8080''],
      volumes = Some [''/data''], user = Some ''app'', cmd = Some ''/bin/sh''\<rparr>"

definition empty_metadata :: ImageMetadata where
  "empty_metadata =
     \<lparr>working_dir = None, env_vars = Some [], labels = Some [], ports = Some [],
      volumes = Some [], user = None, cmd = None\<rparr>"

definition sample_build :: "ImageMetadata \<Rightarrow> Build" where
  "sample_build md =
     \<lparr>base_image = ''fedora:39'', base_layer = ''fedora:39'', target_image = ''myapp:latest'',
      metadata = md\<rparr>"

definition sample_builder :: "ImageMetadata \<Rightarrow> BuildahBuilder" where
  "sample_builder md =
     \<lparr>build = sample_build md, debug = False, python_interpr_prio = sample_prio,
      target_image = ''myapp:latest'', ansible_host = ''myapp:latest-cont''\<rparr>"

section \<open>The configuration call\<close>

lemma foldl_append_pairs:
  "foldl (\<lambda>acc (k, v). acc @ g k v) a kvs = a @ concat (map (\<lambda>(k, v). g k v) kvs)"
  by (induction kvs arbitrary: a) auto

lemma foldl_append_each:
  "foldl (\<lambda>acc x. acc @ g x) a xs = a @ concat (map g xs)"
  by (induction xs arbitrary: a) auto

lemma workingdir_step:
  "(case wd of None \<Rightarrow> a | Some w \<Rightarrow> if w \<noteq> [] then a @ [''--workingdir'', w] else a)
   = a @ workingdir_flags wd"
  by (simp add: workingdir_flags_def split: option.splits)

lemma env_step:
  "(case env of None \<Rightarrow> a
    | Some kvs \<Rightarrow> if kvs \<noteq> [] then foldl (\<lambda>acc (k, v). acc @ [''-e'', k @ ''='' @ v]) a kvs else a)
   = a @ env_flags env"
  by (simp add: env_flags_def foldl_append_pairs split: option.splits)

lemma label_step:
  "(case lbls of None \<Rightarrow> a
    | Some kvs \<Rightarrow> if kvs \<noteq> [] then foldl (\<lambda>acc (k, v). acc @ [''-l'', k @ ''='' @ v]) a kvs else a)
   = a @ label_flags lbls"
  by (simp add: label_flags_def foldl_append_pairs split: option.splits)

lemma user_step:
  "(case usr of None \<Rightarrow> a | Some u \<Rightarrow> if u \<noteq> [] then a @ [''--user'', u] else a)
   = a @ user_flags usr"
  by (simp add: user_flags_def split: option.splits)

lemma cmd_step:
  "(case dcmd of None \<Rightarrow> a | Some c \<Rightarrow> if c \<noteq> [] then a @ [''--cmd'', c] else a)
   = a @ cmd_flags dcmd"
  by (simp add: cmd_flags_def split: option.splits)

lemma port_step:
  "(case prts of None \<Rightarrow> a
    | Some ps \<Rightarrow> if ps \<noteq> [] then foldl (\<lambda>acc p. acc @ [''-p'', p]) a ps else a)
   = a @ port_flags prts"
  by (simp add: port_flags_def foldl_append_each split: option.splits)

lemma volume_step:
  "(case vols of None \<Rightarrow> a
    | Some vs \<Rightarrow> if vs \<noteq> [] then foldl (\<lambda>acc v. acc @ [''-v'', v]) a vs else a)
   = a @ volume_flags vols"
  by (simp add: volume_flags_def foldl_append_each split: option.splits)

lemma buildah_outcome:
  "buildah h sub args dbg tr =
     (case outcome h tr (''buildah'' # sub # args) of
        Exit_ok out \<Rightarrow> (Inr None, tr @ [''buildah'' # sub # args])
      | Exit_fail rc err \<Rightarrow> (Inl (CalledProcessError (''buildah'' # sub # args) rc err),
                              tr @ [''buildah'' # sub # args]))"
  by (simp add: buildah_def run_cmd_def split: proc_result.splits)

lemma configure_buildah_container_flags:
  "configure_buildah_container h container_name wd env lbls usr dcmd prts vols dbg tr =
     (if config_flags wd env lbls usr dcmd prts vols = [] then (Inr container_name, tr)
      else (case outcome h tr (config_command container_name (config_flags wd env lbls usr dcmd prts vols)) of
              Exit_ok out \<Rightarrow>
                (Inr container_name,
                 tr @ [config_command container_name (config_flags wd env lbls usr dcmd prts vols)])
            | Exit_fail rc err \<Rightarrow>
                (Inl (CalledProcessError
                        (config_command container_name (config_flags wd env lbls usr dcmd prts vols)) rc err),
                 tr @ [config_command container_name (config_flags wd env lbls usr dcmd prts vols)])))"
  unfolding configure_buildah_container_def Let_def
    workingdir_step env_step label_step user_step cmd_step port_step volume_step
    buildah_outcome config_flags_def config_command_def
  by (simp split: proc_result.splits)

lemma opt_list_cases:
  obtains (absent) "x = None" | (empty) "x = Some []" | (items) y ys where "x = Some (y # ys)"
proof (cases x)
  case None
  then show ?thesis by (rule absent)
next
  case (Some xs)
  then show ?thesis by (cases xs) (auto intro: empty items)
qed

lemma flags_empty_iff:
  "workingdir_flags wd = [] \<longleftrightarrow> \<not> py_truthy wd"
  "user_flags usr = [] \<longleftrightarrow> \<not> py_truthy usr"
  "cmd_flags dcmd = [] \<longleftrightarrow> \<not> py_truthy dcmd"
  "env_flags env = [] \<longleftrightarrow> \<not> py_truthy env"
  "label_flags lbls = [] \<longleftrightarrow> \<not> py_truthy lbls"
  "port_flags prts = [] \<longleftrightarrow> \<not> py_truthy prts"
  "volume_flags vols = [] \<longleftrightarrow> \<not> py_truthy vols"
proof -
  show "workingdir_flags wd = [] \<longleftrightarrow> \<not> py_truthy wd"
    by (cases wd rule: opt_list_cases) (simp_all add: workingdir_flags_def py_truthy_def)
  show "user_flags usr = [] \<longleftrightarrow> \<not> py_truthy usr"
    by (cases usr rule: opt_list_cases) (simp_all add: user_flags_def py_truthy_def)
  show "cmd_flags dcmd = [] \<longleftrightarrow> \<not> py_truthy dcmd"
    by (cases dcmd rule: opt_list_cases) (simp_all add: cmd_flags_def py_truthy_def)
  show "env_flags env = [] \<longleftrightarrow> \<not> py_truthy env"
    by (cases env rule: opt_list_cases) (auto simp add: env_flags_def py_truthy_def)
  show "label_flags lbls = [] \<longleftrightarrow> \<not> py_truthy lbls"
    by (cases lbls rule: opt_list_cases) (auto simp add: label_flags_def py_truthy_def)
  show "port_flags prts = [] \<longleftrightarrow> \<not> py_truthy prts"
    by (cases prts rule: opt_list_cases) (simp_all add: port_flags_def py_truthy_def)
  show "volume_flags vols = [] \<longleftrightarrow> \<not> py_truthy vols"
    by (cases vols rule: opt_list_cases) (simp_all add: volume_flags_def py_truthy_def)
qed

text \<open>
  C9. When every metadata argument of \<^verbatim>\<open>configure_buildah_container\<close> is absent or
  empty (no working directory, no environment variables, no labels, no user, no default
  command, no ports, no volumes), no external command is run (the trace is unchanged)
  and the container name is returned as it was given.
\<close>

theorem configure_nothing_runs_nothing:
  assumes "\<not> py_truthy wd" and "\<not> py_truthy env" and "\<not> py_truthy lbls"
    and "\<not> py_truthy usr" and "\<not> py_truthy dcmd" and "\<not> py_truthy prts"
    and "\<not> py_truthy vols"
  shows "configure_buildah_container h container_name wd env lbls usr dcmd prts vols dbg tr
         = (Inr container_name, tr)"
  using assms
  by (simp add: configure_buildah_container_flags config_flags_def flags_empty_iff)

theorem configure_nothing_runs_nothing_witness:
  "\<not> py_truthy (None :: string option) \<and> \<not> py_truthy (Some ([] :: (string \<times> string) list))
   \<and> \<not> py_truthy (Some ([] :: string list)) \<and> \<not> py_truthy (Some '''')
   \<and> configure_buildah_container host_failing ''myapp:latest-cont''
        None (Some []) None (Some '''') None (Some []) None False [[''buildah'', ''from'']]
      = (Inr ''myapp:latest-cont'', [[''buildah'', ''from'']])"
  using configure_nothing_runs_nothing
    [of None "Some []" None "Some ''''" None "Some []" None
        host_failing "''myapp:latest-cont''" False "[[''buildah'', ''from'']]"]
  by (simp add: py_truthy_def)

section \<open>Creation and the pre-commit metadata\<close>

lemma create_buildah_container_outcome:
  "create_buildah_container h base container_name build_volumes dbg tr =
     run_plan h [from_command base container_name build_volumes] tr"
  by (cases build_volumes rule: opt_list_cases)
    (simp_all add: create_buildah_container_def Let_def buildah_outcome from_command_def
      split: proc_result.splits)

lemma pre_commit_config_flags:
  "config_flags (working_dir md) (env_vars md) (labels md) None None (ports md) None
   = pre_commit_flags md"
  by (simp add: config_flags_def pre_commit_flags_def user_flags_def cmd_flags_def volume_flags_def)

lemma post_provisioning_config_flags:
  "config_flags None None None (user md) (cmd md) None (volumes md)
   = post_provisioning_flags md"
  by (simp add: config_flags_def post_provisioning_flags_def workingdir_flags_def env_flags_def
      label_flags_def port_flags_def)

lemma create_plan:
  "create h self build_volumes tr =
     run_plan h
       (from_command (base_layer (build self)) (ansible_host self) build_volumes #
        (if pre_commit_flags (metadata (build self)) = [] then []
         else [config_command (ansible_host self) (pre_commit_flags (metadata (build self)))]))
       tr"
  by (simp add: create_def create_buildah_container_outcome configure_buildah_container_flags
      pre_commit_config_flags split: proc_result.splits)

lemma pre_commit_flags_later_fields:
  "pre_commit_flags (md\<lparr>user := u\<rparr>) = pre_commit_flags md"
  "pre_commit_flags (md\<lparr>cmd := c\<rparr>) = pre_commit_flags md"
  "pre_commit_flags (md\<lparr>volumes := v\<rparr>) = pre_commit_flags md"
  by (simp_all add: pre_commit_flags_def)

text \<open>
  C1. For every build specification, \<^verbatim>\<open>create\<close> first runs the creation of the
  container from the base image (the image that the attribute \<^verbatim>\<open>base_layer\<close> of the
  build names), under the builder's container name and with the bind mounts given, and
  then, only when that succeeded, one \<^verbatim>\<open>config\<close> command with exactly the flags of the
  pre-commit metadata: working directory, environment variables, labels and exposed
  ports (no command when there are no such flags). A failure is the result, unchanged.
  The user, the default command and the volumes are not applied: whatever they are, the
  commands and the result are the same.
\<close>

theorem create_applies_pre_commit_metadata:
  "create h self build_volumes tr =
     run_plan h
       (from_command (base_layer (build self)) (ansible_host self) build_volumes #
        (if pre_commit_flags (metadata (build self)) = [] then []
         else [config_command (ansible_host self) (pre_commit_flags (metadata (build self)))]))
       tr
   \<and> create h (self\<lparr>build := (build self)\<lparr>metadata :=
          (metadata (build self))\<lparr>user := u, cmd := c, volumes := v\<rparr>\<rparr>\<rparr>) build_volumes tr
     = create h self build_volumes tr"
proof -
  let ?self' = "self\<lparr>build := (build self)\<lparr>metadata :=
      (metadata (build self))\<lparr>user := u, cmd := c, volumes := v\<rparr>\<rparr>\<rparr>"
  have layer: "base_layer (build ?self') = base_layer (build self)"
    by simp
  have name: "ansible_host ?self' = ansible_host self"
    by simp
  have flags: "pre_commit_flags (metadata (build ?self')) = pre_commit_flags (metadata (build self))"
    by (simp add: pre_commit_flags_later_fields)
  have "create h ?self' build_volumes tr = create h self build_volumes tr"
    by (simp only: create_plan layer name flags)
  then show ?thesis
    by (simp only: create_plan simp_thms)
qed

theorem create_applies_pre_commit_metadata_witness:
  "create (host_printing []) (sample_builder sample_metadata) (Some [''/host:/cont'']) [] =
     (Inr (),
      [[''buildah'', ''from'', ''-v'', ''/host:/cont'', ''--name'', ''myapp:latest-cont'', ''fedora:39''],
       [''buildah'', ''config'', ''--workingdir'', ''/src'', ''-e'', ''LANG=C'',
        ''-l'', ''maintainer=me'', ''-p'', ''8080'', ''myapp:latest-cont'']])
   \<and> create host_failing (sample_builder sample_metadata) None [] =
     (Inl (CalledProcessError [''buildah'', ''from'', ''--name'', ''myapp:latest-cont'', ''fedora:39'']
             125 ''no such object''),
      [[''buildah'', ''from'', ''--name'', ''myapp:latest-cont'', ''fedora:39'']])"
  using create_applies_pre_commit_metadata [of "host_printing []" "sample_builder sample_metadata"
      "Some [''/host:/cont'']" "[]" None None None]
    create_applies_pre_commit_metadata [of host_failing "sample_builder sample_metadata"
      None "[]" None None None]
  by (simp add: sample_builder_def sample_build_def sample_metadata_def host_printing_def
      host_failing_def from_command_def config_command_def pre_commit_flags_def
      workingdir_flags_def env_flags_def label_flags_def port_flags_def)

section \<open>Commit and the post-provisioning metadata\<close>

lemma post_provisioning_flags_empty_iff:
  "post_provisioning_flags md = [] \<longleftrightarrow> \<not> post_provisioning_specified md"
  by (simp add: post_provisioning_flags_def post_provisioning_specified_def flags_empty_iff)

lemma run_plan_append:
  "run_plan h (cs @ ds) tr =
     (case run_plan h cs tr of (Inl e, tr') \<Rightarrow> (Inl e, tr') | (Inr u, tr') \<Rightarrow> run_plan h ds tr')"
  by (induction cs arbitrary: tr) (auto split: proc_result.splits)

lemma commit_plan:
  "commit h loads self image_name tr =
     (case run_plan h
             ((if post_provisioning_specified (metadata (build self))
               then [config_command (ansible_host self) (post_provisioning_flags (metadata (build self)))]
               else [])
              @ [commit_command (ansible_host self) image_name]) tr of
        (Inl e, tr') \<Rightarrow> (Inl e, tr')
      | (Inr u, tr') \<Rightarrow> get_buildah_image_id h loads image_name tr')"
proof (cases "post_provisioning_specified (metadata (build self))")
  case True
  then have ne: "post_provisioning_flags (metadata (build self)) \<noteq> []"
    by (simp add: post_provisioning_flags_empty_iff)
  from True have sp: "py_truthy (user (metadata (build self))) \<or> py_truthy (cmd (metadata (build self)))
      \<or> py_truthy (volumes (metadata (build self)))"
    by (simp add: post_provisioning_specified_def)
  show ?thesis
    using True ne sp
    by (simp add: commit_def configure_buildah_container_flags post_provisioning_config_flags
        buildah_outcome commit_command_def get_image_id_def split: proc_result.splits)
next
  case False
  then have sp: "\<not> (py_truthy (user (metadata (build self))) \<or> py_truthy (cmd (metadata (build self)))
      \<or> py_truthy (volumes (metadata (build self))))"
    by (simp add: post_provisioning_specified_def)
  show ?thesis
    using False sp
    by (simp add: commit_def buildah_outcome commit_command_def get_image_id_def
        split: proc_result.splits)
qed

lemma post_provisioning_flags_earlier_fields:
  "post_provisioning_flags (md\<lparr>working_dir := w\<rparr>) = post_provisioning_flags md"
  "post_provisioning_flags (md\<lparr>env_vars := e\<rparr>) = post_provisioning_flags md"
  "post_provisioning_flags (md\<lparr>labels := l\<rparr>) = post_provisioning_flags md"
  "post_provisioning_flags (md\<lparr>ports := p\<rparr>) = post_provisioning_flags md"
  by (simp_all add: post_provisioning_flags_def)

lemma inspect_buildah_resource_outcome:
  "inspect_buildah_resource h loads resource_type resource_id tr =
     (case outcome h tr (inspect_command resource_type resource_id) of
        Exit_fail rc err \<Rightarrow> (Inr PNone, tr @ [inspect_command resource_type resource_id])
      | Exit_ok out \<Rightarrow>
          (case loads out of
             Inl e \<Rightarrow> (Inl e, tr @ [inspect_command resource_type resource_id])
           | Inr md \<Rightarrow> (Inr md, tr @ [inspect_command resource_type resource_id])))"
  by (simp add: inspect_buildah_resource_def run_cmd_def inspect_command_def
      split: proc_result.splits sum.splits)

lemma get_buildah_image_id_outcome:
  "get_buildah_image_id h loads ref tr =
     (case outcome h tr (inspect_command ''image'' ref) of
        Exit_fail rc err \<Rightarrow> (Inr PNone, tr @ [inspect_command ''image'' ref])
      | Exit_ok out \<Rightarrow>
          (case loads out of
             Inl e \<Rightarrow> (Inl e, tr @ [inspect_command ''image'' ref])
           | Inr md \<Rightarrow> (Inr (graceful_get md ''FromImageID''), tr @ [inspect_command ''image'' ref])))"
  by (simp add: get_buildah_image_id_def inspect_buildah_resource_outcome graceful_get_def
      split: proc_result.splits sum.splits)

lemma commit_inspects:
  "commit h loads self image_name tr =
     (case run_plan h
             ((if post_provisioning_specified (metadata (build self))
               then [config_command (ansible_host self) (post_provisioning_flags (metadata (build self)))]
               else [])
              @ [commit_command (ansible_host self) image_name]) tr of
        (Inl e, tr') \<Rightarrow> (Inl e, tr')
      | (Inr u, tr') \<Rightarrow>
          (case outcome h tr' (inspect_command ''image'' image_name) of
             Exit_fail rc err \<Rightarrow> (Inr PNone, tr' @ [inspect_command ''image'' image_name])
           | Exit_ok out \<Rightarrow>
               (case loads out of
                  Inl e \<Rightarrow> (Inl e, tr' @ [inspect_command ''image'' image_name])
                | Inr md \<Rightarrow>
                    (Inr (case md of
                            PDict kvs \<Rightarrow> (case map_of kvs ''FromImageID'' of None \<Rightarrow> PNone | Some v \<Rightarrow> v)
                          | _ \<Rightarrow> PNone),
                     tr' @ [inspect_command ''image'' image_name]))))"
  unfolding commit_plan get_buildah_image_id_outcome graceful_get_def
  by (rule refl)

text \<open>
  C2. For every build specification, \<^verbatim>\<open>commit(image_name)\<close> runs one \<^verbatim>\<open>config\<close>
  command with exactly the flags of the user, the default command and the volumes if and
  only if at least one of the three is specified (present and not empty), in which case
  the command carries at least one flag; then, when that succeeded, it commits the
  working container to the named image. A failure of either command is the result,
  unchanged, and nothing is inspected. After the commit it inspects the named image, as
  a resource of type \<^verbatim>\<open>image\<close>, and returns the image identifier found there: the value
  under the key \<^verbatim>\<open>FromImageID\<close> of the decoded output of the inspection, an absent
  result when the inspection fails or its metadata has no such key, and the error of the
  decoder when the output cannot be decoded.
  The working directory, the environment variables, the labels and the ports are not
  applied: whatever they are, the commands and the result are the same.
\<close>

theorem commit_applies_post_provisioning_metadata:
  "commit h loads self image_name tr =
     (case run_plan h
             ((if post_provisioning_specified (metadata (build self))
               then [config_command (ansible_host self) (post_provisioning_flags (metadata (build self)))]
               else [])
              @ [commit_command (ansible_host self) image_name]) tr of
        (Inl e, tr') \<Rightarrow> (Inl e, tr')
      | (Inr u, tr') \<Rightarrow>
          (case outcome h tr' (inspect_command ''image'' image_name) of
             Exit_fail rc err \<Rightarrow> (Inr PNone, tr' @ [inspect_command ''image'' image_name])
           | Exit_ok out \<Rightarrow>
               (case loads out of
                  Inl e \<Rightarrow> (Inl e, tr' @ [inspect_command ''image'' image_name])
                | Inr md \<Rightarrow>
                    (Inr (case md of
                            PDict kvs \<Rightarrow> (case map_of kvs ''FromImageID'' of None \<Rightarrow> PNone | Some v \<Rightarrow> v)
                          | _ \<Rightarrow> PNone),
                     tr' @ [inspect_command ''image'' image_name]))))
   \<and> post_provisioning_specified (metadata (build self))
       = (post_provisioning_flags (metadata (build self)) \<noteq> [])
   \<and> commit h loads (self\<lparr>build := (build self)\<lparr>metadata :=
          (metadata (build self))\<lparr>working_dir := w, env_vars := ev, labels := l, ports := p\<rparr>\<rparr>\<rparr>)
        image_name tr
     = commit h loads self image_name tr"
proof -
  let ?self' = "self\<lparr>build := (build self)\<lparr>metadata :=
      (metadata (build self))\<lparr>working_dir := w, env_vars := ev, labels := l, ports := p\<rparr>\<rparr>\<rparr>"
  have name: "ansible_host ?self' = ansible_host self"
    by simp
  have flags: "post_provisioning_flags (metadata (build ?self'))
      = post_provisioning_flags (metadata (build self))"
    by (simp add: post_provisioning_flags_earlier_fields)
  have spec: "post_provisioning_specified (metadata (build ?self'))
      = post_provisioning_specified (metadata (build self))"
    by (simp add: post_provisioning_specified_def)
  have same: "commit h loads ?self' image_name tr = commit h loads self image_name tr"
    by (simp only: commit_plan name flags spec)
  have iff: "post_provisioning_specified (metadata (build self))
      = (post_provisioning_flags (metadata (build self)) \<noteq> [])"
    by (simp add: post_provisioning_flags_empty_iff)
  from commit_inspects [of h loads self image_name tr] same iff show ?thesis
    by (intro conjI)
qed

theorem commit_applies_post_provisioning_metadata_witness:
  "commit (host_printing doc_with_id) sample_loads (sample_builder sample_metadata) ''myapp:latest'' [] =
     (Inr (PStr ''8a3c''),
      [[''buildah'', ''config'', ''--user'', ''app'', ''--cmd'', ''/bin/sh'', ''-v'', ''/data'',
        ''myapp:latest-cont''],
       [''buildah'', ''commit'', ''myapp:latest-cont'', ''myapp:latest''],
       [''buildah'', ''inspect'', ''-t'', ''image'', ''myapp:latest'']])
   \<and> commit (host_printing doc_with_id) sample_loads (sample_builder empty_metadata) ''myapp:latest'' [] =
     (Inr (PStr ''8a3c''),
      [[''buildah'', ''commit'', ''myapp:latest-cont'', ''myapp:latest''],
       [''buildah'', ''inspect'', ''-t'', ''image'', ''myapp:latest'']])
   \<and> commit (host_printing ''{}'') sample_loads (sample_builder empty_metadata) ''myapp:latest'' [] =
     (Inr PNone,
      [[''buildah'', ''commit'', ''myapp:latest-cont'', ''myapp:latest''],
       [''buildah'', ''inspect'', ''-t'', ''image'', ''myapp:latest'']])
   \<and> commit host_failing sample_loads (sample_builder empty_metadata) ''myapp:latest'' [] =
     (Inl (CalledProcessError [''buildah'', ''commit'', ''myapp:latest-cont'', ''myapp:latest'']
             125 ''no such object''),
      [[''buildah'', ''commit'', ''myapp:latest-cont'', ''myapp:latest'']])"
proof -
  have a: "post_provisioning_specified (metadata (build (sample_builder sample_metadata)))"
    by (simp add: post_provisioning_specified_def sample_builder_def sample_build_def
        sample_metadata_def py_truthy_def)
  have b: "\<not> post_provisioning_specified (metadata (build (sample_builder empty_metadata)))"
    by (simp add: post_provisioning_specified_def sample_builder_def sample_build_def
        empty_metadata_def py_truthy_def)
  have c: "post_provisioning_flags (metadata (build (sample_builder sample_metadata)))
      = [''--user'', ''app'', ''--cmd'', ''/bin/sh'', ''-v'', ''/data'']"
    by (simp add: post_provisioning_flags_def sample_builder_def sample_build_def
        sample_metadata_def user_flags_def cmd_flags_def volume_flags_def)
  have n: "ansible_host (sample_builder md) = ''myapp:latest-cont''" for md
    by (simp add: sample_builder_def)
  have o: "outcome (host_printing doc) t (''buildah'' # ''config'' # r) = Exit_ok []"
    "outcome (host_printing doc) t (''buildah'' # ''commit'' # r) = Exit_ok []"
    "outcome (host_printing doc) t (''buildah'' # ''inspect'' # r) = Exit_ok doc"
    "outcome host_failing t r = Exit_fail 125 ''no such object''" for doc t r
    by (simp_all add: host_printing_def host_failing_def)
  have l: "sample_loads doc_with_id = Inr (PDict [(''FromImageID'', PStr ''8a3c'')])"
    "sample_loads ''{}'' = Inr (PDict [])"
    by (simp_all add: sample_loads_def doc_with_id_def)
  show ?thesis
    using commit_applies_post_provisioning_metadata
        [of "host_printing doc_with_id" sample_loads "sample_builder sample_metadata"
          "''myapp:latest''" "[]" None None None None]
      commit_applies_post_provisioning_metadata
        [of "host_printing doc_with_id" sample_loads "sample_builder empty_metadata"
          "''myapp:latest''" "[]" None None None None]
      commit_applies_post_provisioning_metadata
        [of "host_printing ''{}''" sample_loads "sample_builder empty_metadata"
          "''myapp:latest''" "[]" None None None None]
      commit_applies_post_provisioning_metadata
        [of host_failing sample_loads "sample_builder empty_metadata"
          "''myapp:latest''" "[]" None None None None]
    by (simp add: a b c n o l config_command_def commit_command_def inspect_command_def)
qed

section \<open>Image identifiers\<close>

lemma graceful_get_lacks_field:
  "lacks_field d k \<Longrightarrow> graceful_get d k = PNone"
  by (cases d) (simp_all add: lacks_field_def graceful_get_def)

text \<open>
  C5. For every image reference, \<^verbatim>\<open>get_image_id\<close> returns an absent result and does
  not raise, both when the inspection fails (the resource does not exist) and when the
  inspection succeeds and the metadata it decodes lacks the identity field
  \<^verbatim>\<open>FromImageID\<close>.
\<close>

theorem get_image_id_absent:
  assumes "(\<exists>rc err. outcome h tr (inspect_command ''image'' ref) = Exit_fail rc err)
         \<or> (\<exists>out md. outcome h tr (inspect_command ''image'' ref) = Exit_ok out
               \<and> loads out = Inr md \<and> lacks_field md ''FromImageID'')"
  shows "get_buildah_image_id h loads ref tr = (Inr PNone, tr @ [inspect_command ''image'' ref])
       \<and> get_image_id h loads self ref tr = (Inr PNone, tr @ [inspect_command ''image'' ref])"
  using assms
  by (auto simp add: get_image_id_def get_buildah_image_id_outcome graceful_get_lacks_field)

theorem get_image_id_absent_witness:
  "outcome host_failing [] (inspect_command ''image'' ''myapp:latest'') = Exit_fail 125 ''no such object''
   \<and> get_image_id host_failing sample_loads (sample_builder empty_metadata) ''myapp:latest'' []
       = (Inr PNone, [[''buildah'', ''inspect'', ''-t'', ''image'', ''myapp:latest'']])
   \<and> outcome (host_printing ''{}'') [] (inspect_command ''image'' ''myapp:latest'') = Exit_ok ''{}''
   \<and> sample_loads ''{}'' = Inr (PDict []) \<and> lacks_field (PDict []) ''FromImageID''
   \<and> get_image_id (host_printing ''{}'') sample_loads (sample_builder empty_metadata) ''myapp:latest'' []
       = (Inr PNone, [[''buildah'', ''inspect'', ''-t'', ''image'', ''myapp:latest'']])"
proof -
  have f: "outcome host_failing [] (inspect_command ''image'' ''myapp:latest'')
      = Exit_fail 125 ''no such object''"
    by (simp add: host_failing_def)
  have p: "outcome (host_printing ''{}'') [] (inspect_command ''image'' ''myapp:latest'') = Exit_ok ''{}''"
    by (simp add: host_printing_def inspect_command_def)
  have l: "sample_loads ''{}'' = Inr (PDict [])"
    by (simp add: sample_loads_def)
  have k: "lacks_field (PDict []) ''FromImageID''"
    by (simp add: lacks_field_def)
  have c: "inspect_command ''image'' ''myapp:latest''
      = [''buildah'', ''inspect'', ''-t'', ''image'', ''myapp:latest'']"
    by (simp add: inspect_command_def)
  from f have "get_image_id host_failing sample_loads (sample_builder empty_metadata) ''myapp:latest'' []
      = (Inr PNone, [] @ [inspect_command ''image'' ''myapp:latest''])"
    using get_image_id_absent [of host_failing "[]" "''myapp:latest''" sample_loads
        "sample_builder empty_metadata"]
    by blast
  moreover from p l k
  have "get_image_id (host_printing ''{}'') sample_loads (sample_builder empty_metadata) ''myapp:latest'' []
      = (Inr PNone, [] @ [inspect_command ''image'' ''myapp:latest''])"
    using get_image_id_absent [of "host_printing ''{}''" "[]" "''myapp:latest''" sample_loads
        "sample_builder empty_metadata"]
    by blast
  ultimately show ?thesis
    using f p l k by (simp add: c)
qed

text \<open>
  C10 as stated fails: a process that succeeds and prints the JSON document
  \<^verbatim>\<open>null\<close> makes the inspection return an absent result, since \<^verbatim>\<open>json.loads\<close>
  decodes it to \<^verbatim>\<open>None\<close>.
\<close>

theorem inspect_absent_without_failure:
  "outcome (host_printing ''null'') [] (inspect_command ''image'' ''myapp:latest'') = Exit_ok ''null''
   \<and> inspect_buildah_resource (host_printing ''null'') sample_loads ''image'' ''myapp:latest'' []
       = (Inr PNone, [inspect_command ''image'' ''myapp:latest''])"
  by (simp add: inspect_buildah_resource_outcome host_printing_def inspect_command_def sample_loads_def)

text \<open>
  C10, amended. The inspection returns an absent result exactly when the external
  inspection process fails or it succeeds and its output decodes to \<^verbatim>\<open>None\<close> (the
  JSON document \<^verbatim>\<open>null\<close>). When the process succeeds and its output cannot be decoded,
  the error of the decoder is the result of the inspection, not an absent result, and it
  is the result of \<^verbatim>\<open>get_buildah_image_id\<close> too.
\<close>

theorem inspect_absent_or_decode_error:
  "(fst (inspect_buildah_resource h loads resource_type resource_id tr) = Inr PNone
      \<longleftrightarrow> (case outcome h tr (inspect_command resource_type resource_id) of
             Exit_fail rc err \<Rightarrow> True
           | Exit_ok out \<Rightarrow> loads out = Inr PNone))
   \<and> (outcome h tr (inspect_command resource_type resource_id) = Exit_ok out \<and> loads out = Inl e
        \<longrightarrow> inspect_buildah_resource h loads resource_type resource_id tr
              = (Inl e, tr @ [inspect_command resource_type resource_id]))
   \<and> (outcome h tr (inspect_command ''image'' ref) = Exit_ok out \<and> loads out = Inl e
        \<longrightarrow> get_buildah_image_id h loads ref tr = (Inl e, tr @ [inspect_command ''image'' ref]))"
  by (simp add: inspect_buildah_resource_outcome get_buildah_image_id_outcome
      split: proc_result.splits sum.splits)

theorem inspect_absent_or_decode_error_witness:
  "outcome (host_printing ''not json'') [] (inspect_command ''image'' ''myapp:latest'') = Exit_ok ''not json''
   \<and> sample_loads ''not json'' = Inl JSONDecodeError
   \<and> inspect_buildah_resource (host_printing ''not json'') sample_loads ''image'' ''myapp:latest'' []
       = (Inl JSONDecodeError, [inspect_command ''image'' ''myapp:latest''])
   \<and> get_buildah_image_id (host_printing ''not json'') sample_loads ''myapp:latest'' []
       = (Inl JSONDecodeError, [inspect_command ''image'' ''myapp:latest''])"
proof -
  have p: "outcome (host_printing ''not json'') [] (inspect_command ''image'' ''myapp:latest'')
      = Exit_ok ''not json''"
    by (simp add: host_printing_def inspect_command_def)
  have l: "sample_loads ''not json'' = Inl JSONDecodeError"
    by (simp add: sample_loads_def doc_with_id_def doc_empty_id_def)
  show ?thesis
    using p l inspect_absent_or_decode_error [of "host_printing ''not json''" sample_loads
        "''image''" "''myapp:latest''" "[]" "''not json''" JSONDecodeError "''myapp:latest''"]
    by simp
qed

text \<open>
  C7 as stated fails: for metadata whose identifier is the empty string,
  \<^verbatim>\<open>get_image_id\<close> returns that string, which is not an absent result, and
  \<^verbatim>\<open>is_image_present\<close> returns \<^verbatim>\<open>False\<close>.
\<close>

theorem image_with_empty_id_not_present:
  "get_image_id (host_printing doc_empty_id) sample_loads (sample_builder empty_metadata) ''myapp:latest'' []
     = (Inr (PStr []), [inspect_command ''image'' ''myapp:latest''])
   \<and> PStr [] \<noteq> PNone
   \<and> is_image_present (host_printing doc_empty_id) sample_loads (sample_builder empty_metadata)
        ''myapp:latest'' []
     = (Inr False, [inspect_command ''image'' ''myapp:latest''])"
  by (simp add: is_image_present_def get_image_id_def get_buildah_image_id_outcome host_printing_def
      inspect_command_def sample_loads_def doc_empty_id_def doc_with_id_def graceful_get_def)

text \<open>
  C7, amended. For every image reference, \<^verbatim>\<open>is_image_present(ref)\<close> returns
  \<^verbatim>\<open>True\<close> if and only if \<^verbatim>\<open>get_image_id(ref)\<close> returns a value that Python counts as
  true. Such a value is never an absent result, and an identifier that is a string
  counts as true exactly when it is not empty. When \<^verbatim>\<open>get_image_id\<close> raises,
  \<^verbatim>\<open>is_image_present\<close> raises the same error.
\<close>

theorem is_image_present_iff_truthy_id:
  "(get_image_id h loads self ref tr = (Inr v, tr')
      \<longrightarrow> is_image_present h loads self ref tr = (Inr (truthy v), tr'))
   \<and> (get_image_id h loads self ref tr = (Inl e, tr')
      \<longrightarrow> is_image_present h loads self ref tr = (Inl e, tr'))
   \<and> (truthy v \<longrightarrow> v \<noteq> PNone)
   \<and> truthy (PStr s) = (s \<noteq> [])
   \<and> \<not> truthy PNone"
  by (auto simp add: is_image_present_def)

theorem is_image_present_iff_truthy_id_witness:
  "get_image_id (host_printing doc_with_id) sample_loads (sample_builder empty_metadata) ''myapp:latest'' []
     = (Inr (PStr ''8a3c''), [inspect_command ''image'' ''myapp:latest''])
   \<and> is_image_present (host_printing doc_with_id) sample_loads (sample_builder empty_metadata)
        ''myapp:latest'' []
     = (Inr True, [inspect_command ''image'' ''myapp:latest''])
   \<and> get_image_id (host_printing ''not json'') sample_loads (sample_builder empty_metadata) ''myapp:latest'' []
     = (Inl JSONDecodeError, [inspect_command ''image'' ''myapp:latest''])
   \<and> is_image_present (host_printing ''not json'') sample_loads (sample_builder empty_metadata)
        ''myapp:latest'' []
     = (Inl JSONDecodeError, [inspect_command ''image'' ''myapp:latest''])
   \<and> truthy (PStr ''8a3c'') \<and> PStr ''8a3c'' \<noteq> PNone"
proof -
  have g: "get_image_id (host_printing doc_with_id) sample_loads (sample_builder empty_metadata)
      ''myapp:latest'' [] = (Inr (PStr ''8a3c''), [inspect_command ''image'' ''myapp:latest''])"
    by (simp add: get_image_id_def get_buildah_image_id_outcome host_printing_def
        inspect_command_def sample_loads_def doc_with_id_def graceful_get_def)
  have b: "get_image_id (host_printing ''not json'') sample_loads (sample_builder empty_metadata)
      ''myapp:latest'' [] = (Inl JSONDecodeError, [inspect_command ''image'' ''myapp:latest''])"
    by (simp add: get_image_id_def get_buildah_image_id_outcome host_printing_def
        inspect_command_def sample_loads_def doc_with_id_def doc_empty_id_def)
  show ?thesis
    using g b
      is_image_present_iff_truthy_id [of "host_printing doc_with_id" sample_loads
        "sample_builder empty_metadata" "''myapp:latest''" "[]" "PStr ''8a3c''"
        "[inspect_command ''image'' ''myapp:latest'']" JSONDecodeError "''8a3c''"]
      is_image_present_iff_truthy_id [of "host_printing ''not json''" sample_loads
        "sample_builder empty_metadata" "''myapp:latest''" "[]" "PStr ''8a3c''"
        "[inspect_command ''image'' ''myapp:latest'']" JSONDecodeError "''8a3c''"]
    by simp
qed

section \<open>The availability of the engines\<close>

text \<open>
  C3 as stated fails: on a host without the run engine the builder is constructed
  without an error, and \<^verbatim>\<open>create\<close> then runs its command on the build engine.
\<close>

theorem lifecycle_without_run_engine:
  "\<not> resolvable host_without_podman ''podman''
   \<and> BuildahBuilder_init host_without_podman sample_prio (sample_build empty_metadata) False []
       = (Inr (sample_builder empty_metadata), [])
   \<and> create host_without_podman (sample_builder empty_metadata) None []
       = (Inr (), [[''buildah'', ''from'', ''--name'', ''myapp:latest-cont'', ''fedora:39'']])"
  by (simp add: host_without_podman_def BuildahBuilder_init_def Builder_init_def
      buildah_command_exists_def sample_builder_def sample_build_def empty_metadata_def
      create_plan from_command_def pre_commit_flags_def workingdir_flags_def env_flags_def
      label_flags_def port_flags_def)

text \<open>
  C3, amended. The constructor of the builder verifies that the binary of the build
  engine is resolvable: when it is missing, the construction fails with
  \<open>DependencyMissing\<close> naming it and no command has been run, so no operation of the
  lifecycle can be attempted; when it is present the builder is returned. The binary of
  the run engine is verified by \<^verbatim>\<open>pull\<close>: when it is missing, \<^verbatim>\<open>pull\<close> fails with
  \<open>DependencyMissing\<close> naming it and runs no command; when it is present, \<^verbatim>\<open>pull\<close> runs
  the pull of the base image.
\<close>

theorem binaries_verified:
  "(\<not> resolvable h ''buildah''
      \<longrightarrow> BuildahBuilder_init h prio b dbg tr = (Inl (DependencyMissing ''buildah''), tr))
   \<and> (resolvable h ''buildah''
      \<longrightarrow> BuildahBuilder_init h prio b dbg tr =
            (Inr \<lparr>build = b, debug = dbg, python_interpr_prio = prio,
                  target_image = Build.target_image b,
                  ansible_host = Build.target_image b @ ''-cont''\<rparr>, tr))
   \<and> (\<not> resolvable h ''podman''
      \<longrightarrow> pull h self tr = (Inl (DependencyMissing ''podman''), tr))
   \<and> (resolvable h ''podman''
      \<longrightarrow> pull h self tr = run_plan h [pull_command (base_image (build self))] tr)"
  by (simp add: BuildahBuilder_init_def Builder_init_def buildah_command_exists_def pull_def
      podman_command_exists_def pull_buildah_image_def run_cmd_def pull_command_def
      split: proc_result.splits)

theorem binaries_verified_witness:
  "\<not> resolvable host_without_buildah ''buildah'' \<and> resolvable host_without_buildah ''podman''
   \<and> BuildahBuilder_init host_without_buildah sample_prio (sample_build empty_metadata) False []
       = (Inl (DependencyMissing ''buildah''), [])
   \<and> pull host_without_buildah (sample_builder empty_metadata) []
       = (Inr (), [[''podman'', ''pull'', ''fedora:39'']])
   \<and> \<not> resolvable host_without_podman ''podman'' \<and> resolvable host_without_podman ''buildah''
   \<and> pull host_without_podman (sample_builder empty_metadata) []
       = (Inl (DependencyMissing ''podman''), [])
   \<and> BuildahBuilder_init host_without_podman sample_prio (sample_build empty_metadata) False []
       = (Inr (sample_builder empty_metadata), [])"
  using binaries_verified [of host_without_buildah sample_prio "sample_build empty_metadata" False "[]"
      "sample_builder empty_metadata"]
    binaries_verified [of host_without_podman sample_prio "sample_build empty_metadata" False "[]"
      "sample_builder empty_metadata"]
  by (simp add: host_without_buildah_def host_without_podman_def sample_builder_def sample_build_def
      pull_command_def)

section \<open>Cleaning\<close>

text \<open>
  C4 as stated fails: when the removal of the container fails, \<^verbatim>\<open>clean\<close> raises the
  error of the command.
\<close>

theorem clean_raises_on_failure:
  "clean host_failing (sample_builder empty_metadata) []
     = (Inl (CalledProcessError [''buildah'', ''rm'', ''myapp:latest-cont''] 125 ''no such object''),
        [[''buildah'', ''rm'', ''myapp:latest-cont'']])"
  by (simp add: clean_def buildah_outcome host_failing_def sample_builder_def)

text \<open>
  C4, amended. For every state of the working container, \<^verbatim>\<open>clean\<close> runs the removal
  of the working container and nothing else; when the command succeeds \<^verbatim>\<open>clean\<close>
  returns, and when it fails (in particular when the container is already gone) the
  failure of the external command is raised to the caller, with the command, the exit
  code and the error output.
\<close>

theorem clean_propagates_failure:
  "clean h self tr =
     (case outcome h tr (rm_command (ansible_host self)) of
        Exit_ok out \<Rightarrow> (Inr (), tr @ [rm_command (ansible_host self)])
      | Exit_fail rc err \<Rightarrow>
          (Inl (CalledProcessError (rm_command (ansible_host self)) rc err),
           tr @ [rm_command (ansible_host self)]))"
  by (simp add: clean_def buildah_outcome rm_command_def split: proc_result.splits)

theorem clean_propagates_failure_witness:
  "clean (host_printing []) (sample_builder empty_metadata) []
     = (Inr (), [[''buildah'', ''rm'', ''myapp:latest-cont'']])"
  using clean_propagates_failure [of "host_printing []" "sample_builder empty_metadata" "[]"]
  by (simp add: host_printing_def rm_command_def sample_builder_def)

section \<open>The name of the working container\<close>

lemma run_plan_extends_trace:
  "\<exists>rest. snd (run_plan h cs tr) = tr @ rest"
proof (induction cs arbitrary: tr)
  case Nil
  show ?case by simp
next
  case (Cons c cs)
  show ?case
  proof (cases "outcome h tr c")
    case (Exit_ok out)
    from Cons.IH [of "tr @ [c]"] obtain rest where "snd (run_plan h cs (tr @ [c])) = (tr @ [c]) @ rest"
      by blast
    with Exit_ok show ?thesis by simp
  next
    case (Exit_fail rc err)
    then show ?thesis by simp
  qed
qed

lemma run_plan_first_command:
  "\<exists>rest. snd (run_plan h (c # cs) tr) = tr @ c # rest"
proof (cases "outcome h tr c")
  case (Exit_ok out)
  from run_plan_extends_trace [of h cs "tr @ [c]"] obtain rest
    where "snd (run_plan h cs (tr @ [c])) = (tr @ [c]) @ rest"
    by blast
  with Exit_ok show ?thesis by simp
next
  case (Exit_fail rc err)
  then show ?thesis by simp
qed

text \<open>
  C8. The name of the working container is a function of the target image reference:
  the reference followed by \<^verbatim>\<open>-cont\<close>. It is the name under which \<^verbatim>\<open>create\<close> creates
  the container: the first command that \<^verbatim>\<open>create\<close> runs is the \<^verbatim>\<open>from\<close> command with
  that name. In particular the container for the target \<^verbatim>\<open>myapp:latest\<close> is named
  \<^verbatim>\<open>myapp:latest-cont\<close>.
\<close>

theorem container_name_from_target:
  assumes "BuildahBuilder_init h prio b dbg tr = (Inr self, tr')"
  shows "ansible_host self = Build.target_image b @ ''-cont''
       \<and> (\<exists>rest. snd (create h self build_volumes tr')
             = tr' @ from_command (base_layer b) (Build.target_image b @ ''-cont'') build_volumes # rest)
       \<and> (Build.target_image b = ''myapp:latest'' \<longrightarrow> ansible_host self = ''myapp:latest-cont'')"
proof -
  from assms have self: "self = \<lparr>build = b, debug = dbg, python_interpr_prio = prio,
      target_image = Build.target_image b, ansible_host = Build.target_image b @ ''-cont''\<rparr>"
    by (simp add: BuildahBuilder_init_def Builder_init_def buildah_command_exists_def
        split: if_splits)
  then have name: "ansible_host self = Build.target_image b @ ''-cont''"
    and layer: "base_layer (build self) = base_layer b"
    by simp_all
  have "\<exists>rest. snd (create h self build_volumes tr')
      = tr' @ from_command (base_layer (build self)) (ansible_host self) build_volumes # rest"
    unfolding create_plan by (rule run_plan_first_command)
  with name layer show ?thesis
    by simp
qed

theorem container_name_from_target_witness:
  "BuildahBuilder_init (host_printing []) sample_prio (sample_build empty_metadata) False []
     = (Inr (sample_builder empty_metadata), [])
   \<and> ansible_host (sample_builder empty_metadata) = ''myapp:latest-cont''
   \<and> Build.target_image (sample_build empty_metadata) = ''myapp:latest''
   \<and> (\<exists>rest. snd (create (host_printing []) (sample_builder empty_metadata) None [])
         = [''buildah'', ''from'', ''--name'', ''myapp:latest-cont'', ''fedora:39''] # rest)"
proof -
  have i: "BuildahBuilder_init (host_printing []) sample_prio (sample_build empty_metadata) False []
      = (Inr (sample_builder empty_metadata), [])"
    by (simp add: BuildahBuilder_init_def Builder_init_def buildah_command_exists_def
        host_printing_def sample_builder_def sample_build_def)
  have t: "Build.target_image (sample_build empty_metadata) = ''myapp:latest''"
    and l: "base_layer (sample_build empty_metadata) = ''fedora:39''"
    by (simp_all add: sample_build_def)
  show ?thesis
    using i t container_name_from_target [OF i, of None]
    by (simp add: t l from_command_def)
qed

section \<open>Finding the interpreter\<close>

lemma podman_run_cmd_outcome:
  "podman_run_cmd h img [''ls'', p] tr =
     (case outcome h tr (probe_command img p) of
        Exit_ok out \<Rightarrow> (Inr None, tr @ [probe_command img p])
      | Exit_fail rc err \<Rightarrow>
          (Inl (CalledProcessError (probe_command img p) rc err), tr @ [probe_command img p]))"
  by (simp add: podman_run_cmd_def run_cmd_def probe_command_def split: proc_result.splits)

lemma probe_fails_0:
  "probe_fails h img (p # ps) tr 0 \<longleftrightarrow> (\<exists>rc err. outcome h tr (probe_command img p) = Exit_fail rc err)"
  by (simp add: probe_fails_def split: proc_result.splits)

lemma probe_fails_Suc:
  "probe_fails h img (p # ps) tr (Suc j) = probe_fails h img ps (tr @ [probe_command img p]) j"
  by (simp add: probe_fails_def)

lemma loop_step_fail:
  "probe_fails h img (p # ps) tr 0 \<Longrightarrow>
   find_python_interpreter_loop h img (p # ps) tr =
     find_python_interpreter_loop h img ps (tr @ [probe_command img p])"
  by (auto simp add: probe_fails_0 podman_run_cmd_outcome)

lemma loop_step_ok:
  "\<not> probe_fails h img (p # ps) tr 0 \<Longrightarrow>
   find_python_interpreter_loop h img (p # ps) tr = (Inr p, tr @ [probe_command img p])"
  by (simp add: probe_fails_0 podman_run_cmd_outcome split: proc_result.splits)

lemma loop_all_fail:
  "(\<forall>j<length ps. probe_fails h img ps tr j) \<Longrightarrow>
   find_python_interpreter_loop h img ps tr =
     (Inl (RuntimeError (''no python interpreter found in image '' @ img)),
      tr @ map (probe_command img) ps)"
proof (induction ps arbitrary: tr)
  case Nil
  show ?case by simp
next
  case (Cons p ps)
  from Cons.prems have first: "probe_fails h img (p # ps) tr 0"
    by auto
  have "\<forall>j<length ps. probe_fails h img ps (tr @ [probe_command img p]) j"
  proof (intro allI impI)
    fix j assume "j < length ps"
    with Cons.prems have "probe_fails h img (p # ps) tr (Suc j)"
      by auto
    then show "probe_fails h img ps (tr @ [probe_command img p]) j"
      by (simp add: probe_fails_Suc)
  qed
  from Cons.IH [OF this] loop_step_fail [OF first] show ?case
    by simp
qed

lemma loop_first_ok:
  "k < length ps \<Longrightarrow> (\<forall>j<k. probe_fails h img ps tr j) \<Longrightarrow> \<not> probe_fails h img ps tr k \<Longrightarrow>
   find_python_interpreter_loop h img ps tr =
     (Inr (ps ! k), tr @ map (probe_command img) (take (Suc k) ps))"
proof (induction ps arbitrary: tr k)
  case Nil
  then show ?case by simp
next
  case (Cons p ps)
  show ?case
  proof (cases k)
    case 0
    with Cons.prems have "\<not> probe_fails h img (p # ps) tr 0"
      by simp
    from loop_step_ok [OF this] 0 show ?thesis
      by simp
  next
    case (Suc k')
    with Cons.prems have first: "probe_fails h img (p # ps) tr 0"
      by auto
    from Suc Cons.prems have len: "k' < length ps"
      by simp
    have before: "\<forall>j<k'. probe_fails h img ps (tr @ [probe_command img p]) j"
    proof (intro allI impI)
      fix j assume "j < k'"
      with Suc Cons.prems have "probe_fails h img (p # ps) tr (Suc j)"
        by auto
      then show "probe_fails h img ps (tr @ [probe_command img p]) j"
        by (simp add: probe_fails_Suc)
    qed
    from Suc Cons.prems have at: "\<not> probe_fails h img ps (tr @ [probe_command img p]) k'"
      by (simp add: probe_fails_Suc)
    from Cons.IH [OF len before at] loop_step_fail [OF first] Suc show ?thesis
      by simp
  qed
qed

text \<open>
  C6. For every prioritized sequence of candidate interpreter paths,
  \<^verbatim>\<open>find_python_interpreter\<close> probes the paths in order, each by listing it in a
  throwaway run of the base image. When the candidate at position \<open>k\<close> is the first one
  whose probe succeeds, its path is returned and exactly the candidates up to it have
  been probed, none after it. When the probe of every candidate fails, all of them
  have been probed and the result is the error that no interpreter was found, naming the
  base image.
\<close>

theorem find_python_interpreter_first_success:
  "(k < length (python_interpr_prio self)
      \<and> (\<forall>j<k. probe_fails h (base_image (build self)) (python_interpr_prio self) tr j)
      \<and> \<not> probe_fails h (base_image (build self)) (python_interpr_prio self) tr k
     \<longrightarrow> find_python_interpreter h self tr =
           (Inr (python_interpr_prio self ! k),
            tr @ map (probe_command (base_image (build self))) (take (Suc k) (python_interpr_prio self))))
   \<and> ((\<forall>j<length (python_interpr_prio self).
          probe_fails h (base_image (build self)) (python_interpr_prio self) tr j)
     \<longrightarrow> find_python_interpreter h self tr =
           (Inl (RuntimeError (''no python interpreter found in image '' @ base_image (build self))),
            tr @ map (probe_command (base_image (build self))) (python_interpr_prio self)))"
  by (simp add: find_python_interpreter_def loop_first_ok loop_all_fail)

theorem find_python_interpreter_first_success_witness:
  "probe_fails host_only_python ''fedora:39'' sample_prio [] 0
   \<and> probe_fails host_only_python ''fedora:39'' sample_prio [] 1
   \<and> \<not> probe_fails host_only_python ''fedora:39'' sample_prio [] 2
   \<and> find_python_interpreter host_only_python (sample_builder empty_metadata) [] =
       (Inr ''/usr/bin/python'',
        [[''podman'', ''run'', ''--rm'', ''fedora:39'', ''ls'', ''/usr/bin/python3''],
         [''podman'', ''run'', ''--rm'', ''fedora:39'', ''ls'', ''/usr/bin/python2''],
         [''podman'', ''run'', ''--rm'', ''fedora:39'', ''ls'', ''/usr/bin/python'']])
   \<and> probe_fails host_failing ''fedora:39'' sample_prio [] 0
   \<and> probe_fails host_failing ''fedora:39'' sample_prio [] 1
   \<and> probe_fails host_failing ''fedora:39'' sample_prio [] 2
   \<and> find_python_interpreter host_failing (sample_builder empty_metadata) [] =
       (Inl (RuntimeError ''no python interpreter found in image fedora:39''),
        [[''podman'', ''run'', ''--rm'', ''fedora:39'', ''ls'', ''/usr/bin/python3''],
         [''podman'', ''run'', ''--rm'', ''fedora:39'', ''ls'', ''/usr/bin/python2''],
         [''podman'', ''run'', ''--rm'', ''fedora:39'', ''ls'', ''/usr/bin/python'']])"
proof -
  have img: "base_image (build (sample_builder empty_metadata)) = ''fedora:39''"
    and prio: "python_interpr_prio (sample_builder empty_metadata) = sample_prio"
    by (simp_all add: sample_builder_def sample_build_def)
  have len: "length sample_prio = 3"
    by (simp add: sample_prio_def)
  have only: "probe_fails host_only_python ''fedora:39'' sample_prio [] 0"
    "probe_fails host_only_python ''fedora:39'' sample_prio [] 1"
    "\<not> probe_fails host_only_python ''fedora:39'' sample_prio [] 2"
    by (simp_all add: probe_fails_def host_only_python_def sample_prio_def probe_command_def)
  have none: "probe_fails host_failing ''fedora:39'' sample_prio [] j" for j
    by (simp add: probe_fails_def host_failing_def)
  have before: "\<forall>j<2. probe_fails host_only_python ''fedora:39'' sample_prio [] j"
  proof (intro allI impI)
    fix j :: nat assume "j < 2"
    then have "j = 0 \<or> j = 1" by arith
    with only show "probe_fails host_only_python ''fedora:39'' sample_prio [] j" by auto
  qed
  have found: "find_python_interpreter host_only_python (sample_builder empty_metadata) [] =
      (Inr (sample_prio ! 2), [] @ map (probe_command ''fedora:39'') (take (Suc 2) sample_prio))"
    using find_python_interpreter_first_success
      [of 2 "sample_builder empty_metadata" host_only_python "[]"] before only(3)
    by (simp add: img prio len)
  have missing: "find_python_interpreter host_failing (sample_builder empty_metadata) [] =
      (Inl (RuntimeError (''no python interpreter found in image '' @ ''fedora:39'')),
       [] @ map (probe_command ''fedora:39'') sample_prio)"
    using find_python_interpreter_first_success
      [of 0 "sample_builder empty_metadata" host_failing "[]"] none
    by (simp add: img prio)
  show ?thesis
    using only none found missing
    by (simp add: sample_prio_def probe_command_def)
qed

end
